theory Spec2Isabelle
  imports Main
begin

section \<open>Data model of bot.py\<close>

text \<open>
  A Python \<open>str\<close> is a sequence of Unicode code points, and slicing (\<open>s[:128]\<close>)
  counts code points, so a string is a list of code points. ASCII literals of the source
  are written with \<open>ascii\<close>; the other literals are given by their code points.
\<close>

type_synonym pystr = "nat list"

definition ascii :: "string \<Rightarrow> pystr" where
  "ascii cs = map of_char cs"

text \<open>
  \<open>datetime.now(timezone.utc)\<close>: the instant read from the clock, in microseconds.
  The tables store its ISO rendering; the model keeps the instant itself.
\<close>

type_synonym timestamp = int

text \<open>Table \<open>messages_mapping\<close>, primary key \<open>(user_chat_id, user_message_id)\<close>.\<close>

record mapping_row =
  m_user_chat_id :: int
  m_user_message_id :: int
  m_support_message_id :: int
  m_ticket_id :: int

text \<open>Table \<open>tickets\<close>, primary key \<open>id\<close> (AUTOINCREMENT).\<close>

record ticket =
  t_id :: int
  t_user_chat_id :: int
  t_username :: "pystr option"
  t_first_name :: "pystr option"
  t_status :: pystr
  t_created_at :: timestamp
  t_updated_at :: timestamp
  t_topic_id :: "int option"

text \<open>Table \<open>blocked_users\<close>, primary key \<open>user_chat_id\<close>.\<close>

record blocked_row =
  b_user_chat_id :: int
  b_blocked_at :: timestamp
  b_admin_id :: int

text \<open>
  The database: each table is the list of its rows in rowid order (the order of a full
  scan); \<open>bot_settings\<close> holds \<open>(setting_key, setting_value)\<close> pairs.
\<close>

record store =
  messages_mapping :: "mapping_row list"
  tickets :: "ticket list"
  blocked_users :: "blocked_row list"
  bot_settings :: "(pystr \<times> pystr) list"

definition empty_store :: store where
  "empty_store = \<lparr>messages_mapping = [], tickets = [], blocked_users = [], bot_settings = []\<rparr>"

text \<open>The module constants \<open>SUPPORT_CHAT_ID\<close> and \<open>SUPPORT_TOPIC_ID\<close>, read from the environment.\<close>

record config =
  SUPPORT_CHAT_ID :: int
  SUPPORT_TOPIC_ID :: "int option"

section \<open>Settings\<close>

text \<open>\<open>get_setting\<close>: \<open>SELECT setting_value ... WHERE setting_key = ?\<close>, the default on a miss.\<close>

definition get_setting :: "store \<Rightarrow> pystr \<Rightarrow> pystr \<Rightarrow> pystr" where
  "get_setting s key dflt =
     (case find (\<lambda>row. fst row = key) (bot_settings s) of
        None \<Rightarrow> dflt
      | Some row \<Rightarrow> snd row)"

text \<open>\<open>set_setting\<close>: \<open>INSERT OR REPLACE\<close>, which deletes the row of the same key and adds the new one.\<close>

definition set_setting :: "store \<Rightarrow> pystr \<Rightarrow> pystr \<Rightarrow> store" where
  "set_setting s key v =
     s\<lparr>bot_settings := filter (\<lambda>row. fst row \<noteq> key) (bot_settings s) @ [(key, v)]\<rparr>"

definition get_topic_mode :: "store \<Rightarrow> pystr" where
  "get_topic_mode s = get_setting s (ascii ''topic_mode'') (ascii ''per_user'')"

definition set_topic_mode :: "store \<Rightarrow> pystr \<Rightarrow> store" where
  "set_topic_mode s mode = set_setting s (ascii ''topic_mode'') mode"

section \<open>Block list\<close>

text \<open>\<open>is_user_blocked\<close>: \<open>SELECT 1 FROM blocked_users WHERE user_chat_id = ?\<close> finds a row.\<close>

definition is_user_blocked :: "store \<Rightarrow> int \<Rightarrow> bool" where
  "is_user_blocked s user_chat_id =
     (find (\<lambda>row. b_user_chat_id row = user_chat_id) (blocked_users s) \<noteq> None)"

text \<open>
  \<open>toggle_user_block\<close>: deletes the user's rows and returns \<open>False\<close> when the user is
  blocked, inserts a row stamped with the clock and returns \<open>True\<close> otherwise.
\<close>

definition toggle_user_block :: "store \<Rightarrow> int \<Rightarrow> int \<Rightarrow> timestamp \<Rightarrow> store \<times> bool" where
  "toggle_user_block s user_chat_id admin_id now =
     (if is_user_blocked s user_chat_id
      then (s\<lparr>blocked_users :=
                filter (\<lambda>row. b_user_chat_id row \<noteq> user_chat_id) (blocked_users s)\<rparr>, False)
      else (s\<lparr>blocked_users := blocked_users s @
                [\<lparr>b_user_chat_id = user_chat_id, b_blocked_at = now, b_admin_id = admin_id\<rparr>]\<rparr>,
            True))"

section \<open>Message correlation index\<close>

text \<open>
  \<open>save_mapping\<close>: \<open>INSERT OR REPLACE\<close> deletes the row with the same primary key
  \<open>(user_chat_id, user_message_id)\<close>, if any, and inserts the new row with a fresh rowid,
  that is at the end of the scan order.
\<close>

definition save_mapping :: "store \<Rightarrow> int \<Rightarrow> int \<Rightarrow> int \<Rightarrow> int \<Rightarrow> store" where
  "save_mapping s user_chat_id user_message_id support_message_id ticket_id =
     s\<lparr>messages_mapping :=
          filter (\<lambda>row. \<not> (m_user_chat_id row = user_chat_id \<and>
                              m_user_message_id row = user_message_id))
            (messages_mapping s) @
          [\<lparr>m_user_chat_id = user_chat_id, m_user_message_id = user_message_id,
            m_support_message_id = support_message_id, m_ticket_id = ticket_id\<rparr>]\<rparr>"

text \<open>
  \<open>find_user_by_support_message\<close>: \<open>fetchone()\<close> of the rows with the given
  \<open>support_message_id\<close>, the first one in scan order, or \<open>None\<close>.
\<close>

definition find_user_by_support_message :: "store \<Rightarrow> int \<Rightarrow> (int \<times> int \<times> int) option" where
  "find_user_by_support_message s support_message_id =
     (case find (\<lambda>row. m_support_message_id row = support_message_id) (messages_mapping s) of
        None \<Rightarrow> None
      | Some row \<Rightarrow> Some (m_user_chat_id row, m_user_message_id row, m_ticket_id row))"

definition get_ticket_by_support_message :: "store \<Rightarrow> int \<Rightarrow> int option" where
  "get_ticket_by_support_message s support_message_id =
     (case find (\<lambda>row. m_support_message_id row = support_message_id) (messages_mapping s) of
        None \<Rightarrow> None
      | Some row \<Rightarrow> Some (m_ticket_id row))"

section \<open>Ticket store\<close>

text \<open>
  \<open>get_open_ticket\<close>: the open ticket of the user with the largest id
  (\<open>ORDER BY id DESC LIMIT 1\<close>), as the pair \<open>(id, topic_id)\<close>.
\<close>

fun latest :: "ticket list \<Rightarrow> ticket option" where
  "latest [] = None"
| "latest (t # ts) =
     (case latest ts of
        None \<Rightarrow> Some t
      | Some t' \<Rightarrow> if t_id t' < t_id t then Some t else Some t')"

definition get_open_ticket :: "store \<Rightarrow> int \<Rightarrow> (int \<times> int option) option" where
  "get_open_ticket s user_chat_id =
     (case latest (filter (\<lambda>t. t_user_chat_id t = user_chat_id \<and> t_status t = ascii ''open'')
                     (tickets s)) of
        None \<Rightarrow> None
      | Some t \<Rightarrow> Some (t_id t, t_topic_id t))"

text \<open>
  \<open>update_ticket_status\<close>: \<open>UPDATE tickets SET status = ?, updated_at = ? WHERE id = ?\<close>
  with the clock read at the call. Every row with the id is rewritten; when no row has
  the id, nothing changes and nothing is raised.
\<close>

definition update_ticket_status :: "store \<Rightarrow> int \<Rightarrow> pystr \<Rightarrow> timestamp \<Rightarrow> store" where
  "update_ticket_status s ticket_id status now =
     s\<lparr>tickets := map (\<lambda>t. if t_id t = ticket_id
                              then t\<lparr>t_status := status, t_updated_at := now\<rparr>
                              else t) (tickets s)\<rparr>"

text \<open>\<open>SELECT ... FROM tickets WHERE id = ?\<close> followed by \<open>fetchone()\<close>.\<close>

definition ticket_by_id :: "store \<Rightarrow> int \<Rightarrow> ticket option" where
  "ticket_by_id s ticket_id = find (\<lambda>t. t_id t = ticket_id) (tickets s)"

definition get_user_chat_id_by_ticket :: "store \<Rightarrow> int \<Rightarrow> int option" where
  "get_user_chat_id_by_ticket s ticket_id = map_option t_user_chat_id (ticket_by_id s ticket_id)"

definition get_topic_id_by_ticket :: "store \<Rightarrow> int \<Rightarrow> int option" where
  "get_topic_id_by_ticket s ticket_id =
     (case ticket_by_id s ticket_id of None \<Rightarrow> None | Some t \<Rightarrow> t_topic_id t)"

section \<open>Python values\<close>

text \<open>\<open>str(n)\<close> for an integer: its decimal digits, with a minus sign when negative.\<close>

function digits10 :: "nat \<Rightarrow> pystr" where
  "digits10 n = (if n < 10 then [48 + n] else digits10 (n div 10) @ [48 + n mod 10])"
  by pat_completeness auto
termination
  by (relation "measure id") auto

declare digits10.simps [simp del]

definition str_int :: "int \<Rightarrow> pystr" where
  "str_int i = (if i < 0 then 45 # digits10 (nat (- i)) else digits10 (nat i))"

text \<open>
  Truthiness: \<open>None\<close> and the empty string are false for an optional string,
  \<open>None\<close> and \<open>0\<close> for an optional integer.
\<close>

fun truthy_str :: "pystr option \<Rightarrow> bool" where
  "truthy_str None = False"
| "truthy_str (Some x) = (x \<noteq> [])"

fun truthy_int :: "int option \<Rightarrow> bool" where
  "truthy_int None = False"
| "truthy_int (Some i) = (i \<noteq> 0)"

text \<open>\<open>x or d\<close> (equally \<open>x if x else d\<close>) for an optional string \<open>x\<close>.\<close>

fun py_or :: "pystr option \<Rightarrow> pystr \<Rightarrow> pystr" where
  "py_or None d = d"
| "py_or (Some x) d = (if x = [] then d else x)"

text \<open>The literals U+041D U+0435 U+0020 U+0443 U+043A U+0430 U+0437 U+0430 U+043D, and the same followed by U+043E.\<close>

definition lit_ne_ukazan :: pystr where
  "lit_ne_ukazan = [1053, 1077, 32, 1091, 1082, 1072, 1079, 1072, 1085]"

definition lit_ne_ukazano :: pystr where
  "lit_ne_ukazano = [1053, 1077, 32, 1091, 1082, 1072, 1079, 1072, 1085, 1086]"

text \<open>The username after an at sign when there is one, \<open>lit_ne_ukazan\<close> otherwise.\<close>

fun username_display :: "pystr option \<Rightarrow> pystr" where
  "username_display None = lit_ne_ukazan"
| "username_display (Some x) = (if x = [] then lit_ne_ukazan else 64 # x)"

section \<open>Messages and the transport\<close>

text \<open>
  The fields of \<open>update.message\<close> the handlers read. \<open>msg_photo\<close> is the tuple of photo
  sizes given by their file ids, empty when the message has no photo; an attachment that
  is absent is \<open>None\<close>, otherwise its file id.
\<close>

record message =
  msg_chat_id :: int
  msg_message_id :: int
  msg_user_id :: int
  msg_username :: "pystr option"
  msg_first_name :: "pystr option"
  msg_photo :: "pystr list"
  msg_video :: "pystr option"
  msg_document :: "pystr option"
  msg_voice :: "pystr option"
  msg_audio :: "pystr option"
  msg_caption :: "pystr option"
  msg_text :: "pystr option"

text \<open>
  \<open>send_kwargs\<close>: the keyword arguments shared by the relay calls. A missing
  \<open>message_thread_id\<close> key (delivery to the channel root) is \<open>None\<close>; the reply markup is
  one button, given by its label and callback data.
\<close>

record send_kwargs =
  kw_chat_id :: int
  kw_message_thread_id :: "int option"
  kw_reply_markup :: "pystr \<times> pystr"

text \<open>The calls a handler makes on \<open>context.bot\<close> and \<open>message\<close>, in order.\<close>

datatype call =
    Create_forum_topic int pystr
  | Send_info int int pystr
  | Reply_text pystr
  | Send_photo pystr pystr send_kwargs
  | Send_video pystr pystr send_kwargs
  | Send_document pystr pystr send_kwargs
  | Send_voice pystr pystr send_kwargs
  | Send_audio pystr pystr send_kwargs
  | Send_message pystr send_kwargs

text \<open>
  What the transport answers during one handler run: the \<open>message_thread_id\<close> of the
  created forum topic (\<open>None\<close>: \<open>create_forum_topic\<close> raises), whether
  \<open>message.reply_text\<close> returns, and the \<open>message_id\<close> of the relayed copy (\<open>None\<close>: the
  send raises). The profile card sent by \<open>create_ticket\<close> sits in a \<open>try\<close> whose handler
  only logs, so its outcome changes nothing and is no parameter.
\<close>

record transport =
  tr_create_forum_topic :: "int option"
  tr_reply_text :: bool
  tr_send :: "int option"

text \<open>The result of a handler: the store, the calls made, and whether an exception left it.\<close>

record outcome =
  o_store :: store
  o_calls :: "call list"
  o_raised :: bool

section \<open>Creating a ticket\<close>

definition display_name :: "int \<Rightarrow> pystr option \<Rightarrow> pystr option \<Rightarrow> pystr" where
  "display_name user_chat_id username first_name =
     py_or username (py_or first_name (ascii ''User'' @ str_int user_chat_id))"

text \<open>\<open>topic_name = f"<U+1F7E2> {display_name}"\<close>.\<close>

definition topic_name :: "int \<Rightarrow> pystr option \<Rightarrow> pystr option \<Rightarrow> pystr" where
  "topic_name user_chat_id username first_name =
     [128994, 32] @ display_name user_chat_id username first_name"

text \<open>
  \<open>cursor.lastrowid\<close> of the insert: with AUTOINCREMENT the new id is one more than the
  largest id the table ever held, and no ticket row is ever deleted.
\<close>

definition next_ticket_id :: "ticket list \<Rightarrow> int" where
  "next_ticket_id ts = foldr (\<lambda>t m. max (t_id t) m) ts 0 + 1"

text \<open>The profile card \<open>user_info\<close> posted into a new topic.\<close>

definition user_info :: "int \<Rightarrow> pystr option \<Rightarrow> pystr option \<Rightarrow> int \<Rightarrow> pystr" where
  "user_info user_chat_id username first_name ticket_id =
     [128100, 32, 60, 98, 62, 1048, 1085, 1092, 1086, 1088, 1084, 1072, 1094, 1080, 1103, 32,
      1086, 32, 1087, 1086, 1083, 1100, 1079, 1086, 1074, 1072, 1090, 1077, 1083, 1077,
      60, 47, 98, 62, 10, 10] @
     [127380, 32] @ ascii ''ID: <code>'' @ str_int user_chat_id @ ascii ''</code>'' @ [10] @
     [128100, 32, 1048, 1084, 1103, 58, 32] @ py_or first_name lit_ne_ukazano @ [10] @
     [128241, 32] @ ascii ''Username: '' @ username_display username @ [10] @
     [127915, 32, 1058, 1080, 1082, 1077, 1090, 58, 32, 35] @ str_int ticket_id"

text \<open>
  \<open>create_ticket\<close>: in \<open>per_user\<close> mode asks the transport for a forum topic named by the
  first 128 code points of \<open>topic_name\<close>, keeping \<open>topic_id = None\<close> when that raises;
  inserts the ticket row; posts the profile card when a topic was created. Returns the
  store, \<open>(ticket_id, topic_id)\<close> and the calls made.
\<close>

definition create_ticket ::
  "config \<Rightarrow> transport \<Rightarrow> timestamp \<Rightarrow> store \<Rightarrow> int \<Rightarrow> pystr option \<Rightarrow> pystr option \<Rightarrow>
   store \<times> (int \<times> int option) \<times> call list" where
  "create_ticket cfg tr now s user_chat_id username first_name =
     (let topic_mode = get_topic_mode s;
          per_user = (topic_mode = ascii ''per_user'');
          topic_id = (if per_user then tr_create_forum_topic tr else None);
          ticket_id = next_ticket_id (tickets s);
          row = \<lparr>t_id = ticket_id, t_user_chat_id = user_chat_id, t_username = username,
                 t_first_name = first_name, t_status = ascii ''open'', t_created_at = now,
                 t_updated_at = now, t_topic_id = topic_id\<rparr>
      in (s\<lparr>tickets := tickets s @ [row]\<rparr>,
          (ticket_id, topic_id),
          (if per_user
           then [Create_forum_topic (SUPPORT_CHAT_ID cfg)
                   (take 128 (topic_name user_chat_id username first_name))]
           else []) @
          (case topic_id of
             None \<Rightarrow> []
           | Some thread \<Rightarrow>
               if per_user \<and> thread \<noteq> 0
               then [Send_info (SUPPORT_CHAT_ID cfg) thread
                       (user_info user_chat_id username first_name ticket_id)]
               else [])))"

section \<open>Relaying an inbound message\<close>

text \<open>The acknowledgement sent to the user when a ticket was created.\<close>

definition ticket_created_text :: "int \<Rightarrow> pystr" where
  "ticket_created_text ticket_id =
     [9989, 32, 1042, 1072, 1096, 32, 1090, 1080, 1082, 1077, 1090, 32, 35] @
     str_int ticket_id @
     [32, 1089, 1086, 1079, 1076, 1072, 1085, 46, 32, 1054, 1087, 1077, 1088, 1072, 1090, 1086,
      1088, 32, 1087, 1086, 1076, 1076, 1077, 1088, 1078, 1082, 1080, 32, 1089, 1082, 1086,
      1088, 1086, 32, 1086, 1090, 1074, 1077, 1090, 1080, 1090, 46]"

text \<open>
  \<open>header\<close>: the new-ticket banner in \<open>single_topic\<close> mode for a new ticket, the one-line
  banner otherwise.
\<close>

definition header :: "message \<Rightarrow> pystr \<Rightarrow> bool \<Rightarrow> int \<Rightarrow> pystr" where
  "header message topic_mode new_ticket ticket_id =
     (let username = username_display (msg_username message)
      in if topic_mode = ascii ''single_topic'' \<and> new_ticket
         then [127915, 32, 1053, 1054, 1042, 1067, 1049, 32, 1058, 1048, 1050, 1045, 1058, 10, 10] @
              [127380, 32, 1058, 1080, 1082, 1077, 1090, 58, 32] @ str_int ticket_id @ [10] @
              [128100, 32, 1055, 1086, 1083, 1100, 1079, 1086, 1074, 1072, 1090, 1077, 1083,
               1100, 58, 32] @ py_or (msg_first_name message) lit_ne_ukazano @ [10] @
              [127380, 32] @ ascii ''Telegram ID: '' @ str_int (msg_user_id message) @ [10] @
              [128241, 32] @ ascii ''Username: '' @ username
         else [128172, 32] @ py_or (msg_first_name message) lit_ne_ukazano @
              ascii '' ('' @ username @ ascii ''):'')"

text \<open>
  \<open>send_kwargs\<close>: the operator chat, the thread chosen by the topic mode, and the
  block button.
\<close>

definition send_kwargs :: "config \<Rightarrow> pystr \<Rightarrow> int option \<Rightarrow> int \<Rightarrow> send_kwargs" where
  "send_kwargs cfg topic_mode topic_id user_chat_id =
     \<lparr>kw_chat_id = SUPPORT_CHAT_ID cfg,
      kw_message_thread_id =
        (if topic_mode = ascii ''per_user'' \<and> truthy_int topic_id then topic_id
         else if topic_mode = ascii ''single_topic'' \<and> truthy_int (SUPPORT_TOPIC_ID cfg)
         then SUPPORT_TOPIC_ID cfg
         else None),
      kw_reply_markup =
        ([10060, 32, 1047, 1072, 1073, 1083, 1086, 1082, 1080, 1088, 1086, 1074, 1072, 1090,
          1100, 47, 1056, 1072, 1079, 1073, 1083, 1086, 1082, 1080, 1088, 1086, 1074, 1072,
          1090, 1100],
         ascii ''block_'' @ str_int user_chat_id)\<rparr>"

text \<open>\<open>caption_text = f"{header}\n\n{cap}" if cap else header\<close> with \<open>cap = message.caption or ""\<close>.\<close>

definition caption_text :: "pystr \<Rightarrow> pystr option \<Rightarrow> pystr" where
  "caption_text hdr caption =
     (let cap = py_or caption [] in if cap \<noteq> [] then hdr @ [10, 10] @ cap else hdr)"

text \<open>
  The \<open>if\<close>/\<open>elif\<close> chain of the relay: the call it makes, or \<open>None\<close> when it
  reaches the final \<open>else: return\<close>.
\<close>

definition relay_call :: "message \<Rightarrow> pystr \<Rightarrow> send_kwargs \<Rightarrow> call option" where
  "relay_call message hdr kw =
     (if msg_photo message \<noteq> []
      then Some (Send_photo (last (msg_photo message)) (caption_text hdr (msg_caption message)) kw)
      else case msg_video message of
        Some video \<Rightarrow> Some (Send_video video (caption_text hdr (msg_caption message)) kw)
      | None \<Rightarrow>
      (case msg_document message of
        Some document \<Rightarrow> Some (Send_document document (caption_text hdr (msg_caption message)) kw)
      | None \<Rightarrow>
      (case msg_voice message of
        Some voice \<Rightarrow> Some (Send_voice voice hdr kw)
      | None \<Rightarrow>
      (case msg_audio message of
        Some audio \<Rightarrow> Some (Send_audio audio (caption_text hdr (msg_caption message)) kw)
      | None \<Rightarrow>
      (case msg_text message of
        Some txt \<Rightarrow> if txt \<noteq> [] then Some (Send_message (hdr @ [10, 10] @ txt) kw) else None
      | None \<Rightarrow> None)))))"

text \<open>
  The part of \<open>forward_to_support\<close> after the ticket is known: header, target, the send,
  and \<open>save_mapping\<close> when the send returned. A send that raises is logged and dropped.
\<close>

definition relay ::
  "config \<Rightarrow> transport \<Rightarrow> store \<Rightarrow> message \<Rightarrow> int \<Rightarrow> int option \<Rightarrow> bool \<Rightarrow> call list \<Rightarrow> outcome" where
  "relay cfg tr s message ticket_id topic_id new_ticket calls =
     (let topic_mode = get_topic_mode s;
          hdr = header message topic_mode new_ticket ticket_id;
          kw = send_kwargs cfg topic_mode topic_id (msg_chat_id message)
      in case relay_call message hdr kw of
           None \<Rightarrow> \<lparr>o_store = s, o_calls = calls, o_raised = False\<rparr>
         | Some c \<Rightarrow>
             (case tr_send tr of
                None \<Rightarrow> \<lparr>o_store = s, o_calls = calls @ [c], o_raised = False\<rparr>
              | Some sent_id \<Rightarrow>
                  \<lparr>o_store = save_mapping s (msg_chat_id message) (msg_message_id message)
                               sent_id ticket_id,
                   o_calls = calls @ [c], o_raised = False\<rparr>))"

text \<open>
  \<open>forward_to_support\<close>: nothing for a blocked user; otherwise the open ticket of the
  user is looked up and, when there is none, a ticket is created and acknowledged to the
  user (an exception of that \<open>reply_text\<close> leaves the handler); then the relay.
\<close>

definition forward_to_support :: "config \<Rightarrow> transport \<Rightarrow> timestamp \<Rightarrow> store \<Rightarrow> message \<Rightarrow> outcome" where
  "forward_to_support cfg tr now s message =
     (if is_user_blocked s (msg_chat_id message)
      then \<lparr>o_store = s, o_calls = [], o_raised = False\<rparr>
      else case get_open_ticket s (msg_chat_id message) of
        None \<Rightarrow>
          (case create_ticket cfg tr now s (msg_chat_id message)
                  (msg_username message) (msg_first_name message) of
             (s1, (ticket_id, topic_id), calls) \<Rightarrow>
               if tr_reply_text tr
               then relay cfg tr s1 message ticket_id topic_id True
                      (calls @ [Reply_text (ticket_created_text ticket_id)])
               else \<lparr>o_store = s1,
                     o_calls = calls @ [Reply_text (ticket_created_text ticket_id)],
                     o_raised = True\<rparr>)
      | Some (ticket_id, topic_id) \<Rightarrow> relay cfg tr s message ticket_id topic_id False [])"

text \<open>A message with no text and no photo, video, document, voice or audio.\<close>

definition no_content :: "message \<Rightarrow> bool" where
  "no_content message =
     (msg_photo message = [] \<and> msg_video message = None \<and> msg_document message = None \<and>
      msg_voice message = None \<and> msg_audio message = None \<and>
      (msg_text message = None \<or> msg_text message = Some []))"

text \<open>The destination \<open>(chat_id, message_thread_id)\<close> of a relay call.\<close>

fun call_target :: "call \<Rightarrow> (int \<times> int option) option" where
  "call_target (Send_photo f c kw) = Some (kw_chat_id kw, kw_message_thread_id kw)"
| "call_target (Send_video f c kw) = Some (kw_chat_id kw, kw_message_thread_id kw)"
| "call_target (Send_document f c kw) = Some (kw_chat_id kw, kw_message_thread_id kw)"
| "call_target (Send_voice f c kw) = Some (kw_chat_id kw, kw_message_thread_id kw)"
| "call_target (Send_audio f c kw) = Some (kw_chat_id kw, kw_message_thread_id kw)"
| "call_target (Send_message t kw) = Some (kw_chat_id kw, kw_message_thread_id kw)"
| "call_target (Create_forum_topic c n) = None"
| "call_target (Send_info c th t) = None"
| "call_target (Reply_text t) = None"

definition relay_targets :: "outcome \<Rightarrow> (int \<times> int option) list" where
  "relay_targets out = List.map_filter call_target (o_calls out)"

section \<open>Runs of the store under a clock\<close>

text \<open>
  The operations that write the store, each with the clock reading it takes (if any)
  and the answers of the transport.
\<close>

datatype event =
    Ev_forward_to_support transport timestamp message
  | Ev_create_ticket transport timestamp int "pystr option" "pystr option"
  | Ev_update_ticket_status timestamp int pystr
  | Ev_toggle_user_block timestamp int int
  | Ev_save_mapping int int int int
  | Ev_set_setting pystr pystr

fun apply_event :: "config \<Rightarrow> store \<Rightarrow> event \<Rightarrow> store" where
  "apply_event cfg s (Ev_forward_to_support tr now message) =
     o_store (forward_to_support cfg tr now s message)"
| "apply_event cfg s (Ev_create_ticket tr now user_chat_id username first_name) =
     fst (create_ticket cfg tr now s user_chat_id username first_name)"
| "apply_event cfg s (Ev_update_ticket_status now ticket_id status) =
     update_ticket_status s ticket_id status now"
| "apply_event cfg s (Ev_toggle_user_block now user_chat_id admin_id) =
     fst (toggle_user_block s user_chat_id admin_id now)"
| "apply_event cfg s (Ev_save_mapping u m r t) = save_mapping s u m r t"
| "apply_event cfg s (Ev_set_setting key v) = set_setting s key v"

fun run :: "config \<Rightarrow> store \<Rightarrow> event list \<Rightarrow> store" where
  "run cfg s [] = s"
| "run cfg s (e # es) = run cfg (apply_event cfg s e) es"

fun event_time :: "event \<Rightarrow> timestamp option" where
  "event_time (Ev_forward_to_support tr now message) = Some now"
| "event_time (Ev_create_ticket tr now u un fn) = Some now"
| "event_time (Ev_update_ticket_status now ticket_id status) = Some now"
| "event_time (Ev_toggle_user_block now u a) = Some now"
| "event_time (Ev_save_mapping u m r t) = None"
| "event_time (Ev_set_setting key v) = None"

text \<open>A non-decreasing clock: every reading is at least the one before, starting from \<open>c\<close>.\<close>

fun clock_ok :: "timestamp \<Rightarrow> event list \<Rightarrow> bool" where
  "clock_ok c [] = True"
| "clock_ok c (e # es) =
     (case event_time e of
        None \<Rightarrow> clock_ok c es
      | Some now \<Rightarrow> c \<le> now \<and> clock_ok now es)"

text \<open>
  The invariant of the ticket table under a clock whose last reading is \<open>c\<close>: no ticket
  was updated before it was created, nor after \<open>c\<close>.
\<close>

definition times_ok :: "timestamp \<Rightarrow> store \<Rightarrow> bool" where
  "times_ok c s = (\<forall>t \<in> set (tickets s). t_created_at t \<le> t_updated_at t \<and> t_updated_at t \<le> c)"

section \<open>Example values\<close>

text \<open>A configuration, transport answers and a message used to evaluate the handlers.\<close>

definition demo_config :: config where
  "demo_config = \<lparr>SUPPORT_CHAT_ID = - 1001, SUPPORT_TOPIC_ID = Some 7\<rparr>"

definition demo_transport :: transport where
  "demo_transport = \<lparr>tr_create_forum_topic = Some 9, tr_reply_text = True, tr_send = Some 77\<rparr>"

definition demo_message :: message where
  "demo_message =
     \<lparr>msg_chat_id = 42, msg_message_id = 5, msg_user_id = 42,
      msg_username = Some (ascii ''alice''), msg_first_name = Some (ascii ''Alice''),
      msg_photo = [], msg_video = None, msg_document = None, msg_voice = None,
      msg_audio = None, msg_caption = None, msg_text = None\<rparr>"

section \<open>Helper lemmas\<close>

lemma find_append_none:
  "find P xs = None \<Longrightarrow> find P (xs @ ys) = find P ys"
  by (induction xs) (auto split: if_splits)

lemma find_append_some:
  "find P xs = Some x \<Longrightarrow> find P (xs @ ys) = Some x"
  by (induction xs) (auto split: if_splits)

lemma find_none_iff_set: "(find P xs = None) = (\<forall>x \<in> set xs. \<not> P x)"
  by (induction xs) auto

lemma find_filter_out:
  "find (\<lambda>row. f row = k) (filter (\<lambda>row. f row \<noteq> k) xs) = None"
  by (induction xs) auto

lemma find_filter_other:
  "k' \<noteq> k \<Longrightarrow>
   (find (\<lambda>row. f row = k') (filter (\<lambda>row. f row \<noteq> k) xs) = None) =
   (find (\<lambda>row. f row = k') xs = None)"
  by (induction xs) auto

lemma is_user_blocked_iff:
  "is_user_blocked s u = (\<exists>row \<in> set (blocked_users s). b_user_chat_id row = u)"
  by (simp add: is_user_blocked_def find_none_iff_set)

lemma find_map_same_id:
  assumes "\<And>t. t_id (g t) = t_id t"
  shows "find (\<lambda>t. t_id t = T) (map (\<lambda>t. if t_id t = T then g t else t) ts) =
         map_option g (find (\<lambda>t. t_id t = T) ts)"
  using assms by (induction ts) auto

lemma find_map_other_id:
  assumes "\<And>t. t_id (g t) = t_id t" and "T' \<noteq> T"
  shows "find (\<lambda>t. t_id t = T') (map (\<lambda>t. if t_id t = T then g t else t) ts) =
         find (\<lambda>t. t_id t = T') ts"
  using assms by (induction ts) auto

lemma map_ids_update:
  "map t_id (map (\<lambda>t. if t_id t = T then t\<lparr>t_status := S, t_updated_at := now\<rparr> else t) ts) =
   map t_id ts"
  by (induction ts) auto

section \<open>Message correlation: round trip\<close>

text \<open>
  Claim C1. Recording the correlation \<open>(U, M, R, T)\<close> with \<open>save_mapping\<close> and then
  resolving the relayed id \<open>R\<close> with \<open>find_user_by_support_message\<close> returns exactly
  \<open>(U, M, T)\<close>, provided no row of another origin message already carries \<open>R\<close>.
\<close>

theorem save_mapping_roundtrip:
  assumes "\<forall>row \<in> set (messages_mapping s).
             m_support_message_id row = R \<longrightarrow>
             m_user_chat_id row = U \<and> m_user_message_id row = M"
  shows "find_user_by_support_message (save_mapping s U M R T) R = Some (U, M, T)"
proof -
  let ?kept = "filter (\<lambda>row. \<not> (m_user_chat_id row = U \<and> m_user_message_id row = M))
                 (messages_mapping s)"
  have "\<forall>row \<in> set ?kept. m_support_message_id row \<noteq> R"
    using assms by auto
  then have "find (\<lambda>row. m_support_message_id row = R) ?kept = None"
    by (simp add: find_none_iff_set)
  then show ?thesis
    by (simp add: find_user_by_support_message_def save_mapping_def find_append_none)
qed

theorem save_mapping_roundtrip_witness:
  "find_user_by_support_message
     (save_mapping
        (empty_store\<lparr>messages_mapping :=
           [\<lparr>m_user_chat_id = 7, m_user_message_id = 1, m_support_message_id = 100, m_ticket_id = 3\<rparr>,
            \<lparr>m_user_chat_id = 42, m_user_message_id = 5, m_support_message_id = 101, m_ticket_id = 4\<rparr>]\<rparr>)
        42 5 101 9) 101 = Some (42, 5, 9)"
  using save_mapping_roundtrip [of
    "empty_store\<lparr>messages_mapping :=
           [\<lparr>m_user_chat_id = 7, m_user_message_id = 1, m_support_message_id = 100, m_ticket_id = 3\<rparr>,
            \<lparr>m_user_chat_id = 42, m_user_message_id = 5, m_support_message_id = 101, m_ticket_id = 4\<rparr>]\<rparr>"
    101 42 5 9]
  by (simp add: empty_store_def)

section \<open>Block list: toggling\<close>

text \<open>
  Claim C6. \<open>toggle_user_block\<close> deletes the user's row and returns \<open>False\<close> when the user
  is blocked, and inserts a row and returns \<open>True\<close> when not. The value returned is
  \<open>is_user_blocked\<close> evaluated right after the call; a second call returns the opposite
  value and restores the block-set membership of every user.
\<close>

theorem toggle_user_block_spec:
  "(is_user_blocked s u \<longrightarrow>
      snd (toggle_user_block s u a now) = False \<and>
      blocked_users (fst (toggle_user_block s u a now)) =
        filter (\<lambda>row. b_user_chat_id row \<noteq> u) (blocked_users s)) \<and>
   (\<not> is_user_blocked s u \<longrightarrow>
      snd (toggle_user_block s u a now) = True \<and>
      blocked_users (fst (toggle_user_block s u a now)) =
        blocked_users s @ [\<lparr>b_user_chat_id = u, b_blocked_at = now, b_admin_id = a\<rparr>]) \<and>
   snd (toggle_user_block s u a now) = is_user_blocked (fst (toggle_user_block s u a now)) u \<and>
   snd (toggle_user_block (fst (toggle_user_block s u a now)) u a' now') =
     (\<not> snd (toggle_user_block s u a now)) \<and>
   (\<forall>v. is_user_blocked (fst (toggle_user_block (fst (toggle_user_block s u a now)) u a' now')) v =
        is_user_blocked s v)"
proof (cases "is_user_blocked s u")
  case True
  let ?s1 = "fst (toggle_user_block s u a now)"
  have s1: "blocked_users ?s1 = filter (\<lambda>row. b_user_chat_id row \<noteq> u) (blocked_users s)"
    and r1: "snd (toggle_user_block s u a now) = False"
    using True by (simp_all add: toggle_user_block_def)
  have nb: "\<not> is_user_blocked ?s1 u"
    by (simp add: is_user_blocked_iff s1)
  have s2: "blocked_users (fst (toggle_user_block ?s1 u a' now')) =
            blocked_users ?s1 @ [\<lparr>b_user_chat_id = u, b_blocked_at = now', b_admin_id = a'\<rparr>]"
    and r2: "snd (toggle_user_block ?s1 u a' now') = True"
    using nb by (simp_all add: toggle_user_block_def)
  have restored: "\<forall>v. is_user_blocked (fst (toggle_user_block ?s1 u a' now')) v = is_user_blocked s v"
    using True by (auto simp: is_user_blocked_iff s2 s1)
  show ?thesis using True s1 r1 nb r2 restored by simp
next
  case False
  let ?s1 = "fst (toggle_user_block s u a now)"
  have s1: "blocked_users ?s1 =
            blocked_users s @ [\<lparr>b_user_chat_id = u, b_blocked_at = now, b_admin_id = a\<rparr>]"
    and r1: "snd (toggle_user_block s u a now) = True"
    using False by (simp_all add: toggle_user_block_def)
  have b: "is_user_blocked ?s1 u"
    by (simp add: is_user_blocked_iff s1)
  have s2: "blocked_users (fst (toggle_user_block ?s1 u a' now')) =
            filter (\<lambda>row. b_user_chat_id row \<noteq> u) (blocked_users ?s1)"
    and r2: "snd (toggle_user_block ?s1 u a' now') = False"
    using b by (simp_all add: toggle_user_block_def)
  have restored: "\<forall>v. is_user_blocked (fst (toggle_user_block ?s1 u a' now')) v = is_user_blocked s v"
    using False by (auto simp: is_user_blocked_iff s2 s1)
  show ?thesis using False s1 r1 b r2 restored by simp
qed

theorem toggle_user_block_spec_witness:
  "\<not> is_user_blocked empty_store 42 \<and>
   snd (toggle_user_block empty_store 42 1 100) = True \<and>
   blocked_users (fst (toggle_user_block empty_store 42 1 100)) =
     [\<lparr>b_user_chat_id = 42, b_blocked_at = 100, b_admin_id = 1\<rparr>] \<and>
   is_user_blocked (fst (toggle_user_block empty_store 42 1 100)) 42 \<and>
   snd (toggle_user_block (fst (toggle_user_block empty_store 42 1 100)) 42 2 200) = False \<and>
   blocked_users (fst (toggle_user_block (fst (toggle_user_block empty_store 42 1 100)) 42 2 200)) = []"
  using toggle_user_block_spec [of empty_store 42 1 100 2 200]
    toggle_user_block_spec [of "fst (toggle_user_block empty_store 42 1 100)" 42 2 200 1 300]
  by (simp add: is_user_blocked_def empty_store_def toggle_user_block_def)

section \<open>Ticket status\<close>

text \<open>
  Claim C8. For an existing ticket \<open>T\<close> and any status \<open>S\<close> (in particular \<open>open\<close> and
  \<open>closed\<close>, whatever the status was before), \<open>update_ticket_status\<close> sets the status
  of \<open>T\<close> to \<open>S\<close> and its \<open>updated_at\<close> to the clock reading, and touches nothing
  else: no other ticket, no row added or removed, no other table. It is a total
  function, so no transition is refused; closing twice leaves the ticket closed.
\<close>

theorem update_ticket_status_spec:
  assumes "ticket_by_id s T = Some t"
  shows "ticket_by_id (update_ticket_status s T S now) T =
           Some (t\<lparr>t_status := S, t_updated_at := now\<rparr>) \<and>
         (\<forall>T'. T' \<noteq> T \<longrightarrow>
            ticket_by_id (update_ticket_status s T S now) T' = ticket_by_id s T') \<and>
         map t_id (tickets (update_ticket_status s T S now)) = map t_id (tickets s) \<and>
         messages_mapping (update_ticket_status s T S now) = messages_mapping s \<and>
         blocked_users (update_ticket_status s T S now) = blocked_users s \<and>
         bot_settings (update_ticket_status s T S now) = bot_settings s \<and>
         ticket_by_id
           (update_ticket_status (update_ticket_status s T (ascii ''closed'') now) T
              (ascii ''closed'') now') T =
           Some (t\<lparr>t_status := ascii ''closed'', t_updated_at := now'\<rparr>)"
proof -
  have one: "\<And>s S now t. ticket_by_id s T = Some t \<Longrightarrow>
               ticket_by_id (update_ticket_status s T S now) T =
               Some (t\<lparr>t_status := S, t_updated_at := now\<rparr>)"
    by (simp add: ticket_by_id_def update_ticket_status_def find_map_same_id)
  have other: "\<forall>T'. T' \<noteq> T \<longrightarrow>
            ticket_by_id (update_ticket_status s T S now) T' = ticket_by_id s T'"
    by (simp add: ticket_by_id_def update_ticket_status_def find_map_other_id)
  have ids: "map t_id (tickets (update_ticket_status s T S now)) = map t_id (tickets s)"
    by (simp add: update_ticket_status_def map_ids_update)
  have twice: "ticket_by_id
           (update_ticket_status (update_ticket_status s T (ascii ''closed'') now) T
              (ascii ''closed'') now') T =
           Some (t\<lparr>t_status := ascii ''closed'', t_updated_at := now'\<rparr>)"
    using one [OF one [OF assms, of "ascii ''closed''" now], of "ascii ''closed''" now'] by simp
  show ?thesis
    using one [OF assms] other ids twice by (simp add: update_ticket_status_def)
qed

theorem update_ticket_status_spec_witness:
  "ticket_by_id
     (update_ticket_status
        (empty_store\<lparr>tickets :=
           [\<lparr>t_id = 1, t_user_chat_id = 42, t_username = None, t_first_name = None,
             t_status = ascii ''open'', t_created_at = 10, t_updated_at = 10, t_topic_id = None\<rparr>]\<rparr>)
        1 (ascii ''closed'') 20) 1 =
   Some \<lparr>t_id = 1, t_user_chat_id = 42, t_username = None, t_first_name = None,
         t_status = ascii ''closed'', t_created_at = 10, t_updated_at = 20, t_topic_id = None\<rparr>"
  using update_ticket_status_spec [of
     "empty_store\<lparr>tickets :=
           [\<lparr>t_id = 1, t_user_chat_id = 42, t_username = None, t_first_name = None,
             t_status = ascii ''open'', t_created_at = 10, t_updated_at = 10, t_topic_id = None\<rparr>]\<rparr>"
     1 "\<lparr>t_id = 1, t_user_chat_id = 42, t_username = None, t_first_name = None,
             t_status = ascii ''open'', t_created_at = 10, t_updated_at = 10, t_topic_id = None\<rparr>"
     "ascii ''closed''" 20 20]
  by (simp add: ticket_by_id_def empty_store_def)

text \<open>
  Claim C10. For a ticket id with no row in the store, \<open>update_ticket_status\<close> returns
  the store it was given: every ticket, correlation row, block entry and setting is
  unchanged, and there is no error.
\<close>

theorem update_ticket_status_missing:
  assumes "ticket_by_id s T = None"
  shows "update_ticket_status s T S now = s"
proof -
  have "\<forall>t \<in> set (tickets s). t_id t \<noteq> T"
    using assms by (simp add: ticket_by_id_def find_none_iff_set)
  then have "map (\<lambda>t. if t_id t = T then t\<lparr>t_status := S, t_updated_at := now\<rparr> else t) (tickets s) =
             tickets s"
    by (induction "tickets s") (auto intro: map_idI)
  then show ?thesis by (simp add: update_ticket_status_def)
qed

theorem update_ticket_status_missing_witness:
  "update_ticket_status
     (empty_store\<lparr>tickets :=
           [\<lparr>t_id = 1, t_user_chat_id = 42, t_username = None, t_first_name = None,
             t_status = ascii ''open'', t_created_at = 10, t_updated_at = 10, t_topic_id = None\<rparr>]\<rparr>)
     2 (ascii ''closed'') 20 =
   empty_store\<lparr>tickets :=
           [\<lparr>t_id = 1, t_user_chat_id = 42, t_username = None, t_first_name = None,
             t_status = ascii ''open'', t_created_at = 10, t_updated_at = 10, t_topic_id = None\<rparr>]\<rparr>"
  using update_ticket_status_missing [of
     "empty_store\<lparr>tickets :=
           [\<lparr>t_id = 1, t_user_chat_id = 42, t_username = None, t_first_name = None,
             t_status = ascii ''open'', t_created_at = 10, t_updated_at = 10, t_topic_id = None\<rparr>]\<rparr>"
     2 "ascii ''closed''" 20]
  by (simp add: ticket_by_id_def empty_store_def)

section \<open>Lemmas on the handlers\<close>

lemma latest_None_iff: "(latest ts = None) = (ts = [])"
  by (cases ts) (auto split: option.splits)

lemma get_open_ticket_None_filter:
  "get_open_ticket s u = None \<Longrightarrow>
   filter (\<lambda>t. t_user_chat_id t = u \<and> t_status t = ascii ''open'') (tickets s) = []"
  by (simp add: get_open_ticket_def latest_None_iff split: option.splits)

lemma get_topic_mode_tickets_upd: "get_topic_mode (s\<lparr>tickets := ts\<rparr>) = get_topic_mode s"
  by (simp add: get_topic_mode_def get_setting_def)

lemma create_ticket_store:
  "fst (create_ticket cfg tr now s u un fn) =
   s\<lparr>tickets := tickets s @
       [\<lparr>t_id = next_ticket_id (tickets s), t_user_chat_id = u, t_username = un,
         t_first_name = fn, t_status = ascii ''open'', t_created_at = now, t_updated_at = now,
         t_topic_id = (if get_topic_mode s = ascii ''per_user''
                       then tr_create_forum_topic tr else None)\<rparr>]\<rparr>"
  by (simp add: create_ticket_def Let_def)

lemma create_ticket_ids:
  "fst (snd (create_ticket cfg tr now s u un fn)) =
   (next_ticket_id (tickets s),
    if get_topic_mode s = ascii ''per_user'' then tr_create_forum_topic tr else None)"
  by (simp add: create_ticket_def Let_def)

lemma create_ticket_calls_no_target:
  "List.map_filter call_target (snd (snd (create_ticket cfg tr now s u un fn))) = []"
  by (simp add: create_ticket_def Let_def List.map_filter_def split: option.splits)

lemma relay_call_None_iff: "(relay_call m hdr kw = None) = no_content m"
  by (auto simp: relay_call_def no_content_def split: option.splits)

lemma relay_call_target:
  "relay_call m hdr kw = Some c \<Longrightarrow> call_target c = Some (kw_chat_id kw, kw_message_thread_id kw)"
  by (auto simp: relay_call_def split: option.splits if_splits)

lemma relay_no_content:
  "no_content m \<Longrightarrow>
   relay cfg tr s m tid thr nt calls = \<lparr>o_store = s, o_calls = calls, o_raised = False\<rparr>"
proof -
  assume "no_content m"
  then have "\<And>hdr kw. relay_call m hdr kw = None"
    by (simp add: relay_call_None_iff)
  then show ?thesis
    by (simp add: relay_def Let_def)
qed

lemma relay_tables:
  "tickets (o_store (relay cfg tr s m tid thr nt calls)) = tickets s \<and>
   blocked_users (o_store (relay cfg tr s m tid thr nt calls)) = blocked_users s \<and>
   bot_settings (o_store (relay cfg tr s m tid thr nt calls)) = bot_settings s"
  by (simp add: relay_def Let_def save_mapping_def split: option.splits)

lemma relay_targets_relay:
  assumes "\<not> no_content m"
  shows "List.map_filter call_target (o_calls (relay cfg tr s m tid thr nt calls)) =
         List.map_filter call_target calls @
         [(SUPPORT_CHAT_ID cfg,
           kw_message_thread_id (send_kwargs cfg (get_topic_mode s) thr (msg_chat_id m)))]"
proof -
  let ?kw = "send_kwargs cfg (get_topic_mode s) thr (msg_chat_id m)"
  let ?hdr = "header m (get_topic_mode s) nt tid"
  obtain c where c: "relay_call m ?hdr ?kw = Some c"
    using assms relay_call_None_iff [of m ?hdr ?kw] by (cases "relay_call m ?hdr ?kw") auto
  have "call_target c = Some (kw_chat_id ?kw, kw_message_thread_id ?kw)"
    using c by (rule relay_call_target)
  moreover have "kw_chat_id ?kw = SUPPORT_CHAT_ID cfg"
    by (simp add: send_kwargs_def)
  ultimately show ?thesis
    using c by (simp add: relay_def Let_def List.map_filter_def split: option.splits)
qed

lemma get_open_ticket_tickets_eq:
  "tickets s' = tickets s \<Longrightarrow> get_open_ticket s' u = get_open_ticket s u"
  by (simp add: get_open_ticket_def)

lemma forward_to_support_existing:
  assumes "\<not> is_user_blocked s (msg_chat_id m)"
    and "get_open_ticket s (msg_chat_id m) = Some (tid, thr)"
  shows "forward_to_support cfg tr now s m = relay cfg tr s m tid thr False []"
  using assms by (simp add: forward_to_support_def)

lemma forward_to_support_new:
  assumes "\<not> is_user_blocked s (msg_chat_id m)"
    and "get_open_ticket s (msg_chat_id m) = None"
    and "tr_reply_text tr"
  shows "forward_to_support cfg tr now s m =
         relay cfg tr
           (fst (create_ticket cfg tr now s (msg_chat_id m) (msg_username m) (msg_first_name m)))
           m (next_ticket_id (tickets s))
           (if get_topic_mode s = ascii ''per_user'' then tr_create_forum_topic tr else None) True
           (snd (snd (create_ticket cfg tr now s (msg_chat_id m) (msg_username m) (msg_first_name m))) @
            [Reply_text (ticket_created_text (next_ticket_id (tickets s)))])"
proof -
  obtain s1 ids calls where ct:
    "create_ticket cfg tr now s (msg_chat_id m) (msg_username m) (msg_first_name m) = (s1, ids, calls)"
    by (cases "create_ticket cfg tr now s (msg_chat_id m) (msg_username m) (msg_first_name m)")
  have ids: "ids = (next_ticket_id (tickets s),
      if get_topic_mode s = ascii ''per_user'' then tr_create_forum_topic tr else None)"
    using create_ticket_ids [of cfg tr now s "msg_chat_id m" "msg_username m" "msg_first_name m"]
    by (simp add: ct)
  show ?thesis
    using assms by (simp add: forward_to_support_def ct ids)
qed

lemma get_open_ticket_created:
  assumes "get_open_ticket s u = None"
  shows "get_open_ticket (fst (create_ticket cfg tr now s u un fn)) u =
         Some (next_ticket_id (tickets s),
               if get_topic_mode s = ascii ''per_user'' then tr_create_forum_topic tr else None)"
  using get_open_ticket_None_filter [OF assms]
  by (simp add: create_ticket_store get_open_ticket_def)

lemma get_topic_mode_created:
  "get_topic_mode (fst (create_ticket cfg tr now s u un fn)) = get_topic_mode s"
  by (simp add: create_ticket_store get_topic_mode_tickets_upd)

lemma thread_of_send_kwargs:
  "kw_message_thread_id (send_kwargs cfg mode thr u) =
   (if mode = ascii ''per_user'' \<and> truthy_int thr then thr
    else if mode = ascii ''single_topic'' \<and> truthy_int (SUPPORT_TOPIC_ID cfg)
    then SUPPORT_TOPIC_ID cfg
    else None)"
  by (simp add: send_kwargs_def)

lemmas handler_defs =
  forward_to_support_def relay_def relay_call_def create_ticket_def send_kwargs_def header_def
  caption_text_def save_mapping_def get_open_ticket_def is_user_blocked_def get_topic_mode_def
  get_setting_def next_ticket_id_def topic_name_def display_name_def user_info_def
  ticket_created_text_def str_int_def digits10.simps ascii_def lit_ne_ukazan_def
  lit_ne_ukazano_def empty_store_def demo_config_def demo_transport_def demo_message_def
  relay_targets_def List.map_filter_def no_content_def Let_def

section \<open>Inbound messages\<close>

text \<open>
  Claim C5. For a message of a blocked user \<open>forward_to_support\<close> does nothing: it makes
  no call on the transport (no relay to the operator channel, no reply to the user,
  no forum topic), leaves the store as it was (no ticket, no correlation row), and
  returns normally.
\<close>

theorem forward_to_support_blocked:
  assumes "is_user_blocked s (msg_chat_id m)"
  shows "forward_to_support cfg tr now s m = \<lparr>o_store = s, o_calls = [], o_raised = False\<rparr>"
  using assms by (simp add: forward_to_support_def)

theorem forward_to_support_blocked_witness:
  "forward_to_support demo_config demo_transport 1000
     (empty_store\<lparr>blocked_users :=
        [\<lparr>b_user_chat_id = 42, b_blocked_at = 10, b_admin_id = 1\<rparr>]\<rparr>)
     (demo_message\<lparr>msg_text := Some (ascii ''hello'')\<rparr>) =
   \<lparr>o_store = empty_store\<lparr>blocked_users :=
        [\<lparr>b_user_chat_id = 42, b_blocked_at = 10, b_admin_id = 1\<rparr>]\<rparr>,
    o_calls = [], o_raised = False\<rparr>"
  using forward_to_support_blocked [of
    "empty_store\<lparr>blocked_users := [\<lparr>b_user_chat_id = 42, b_blocked_at = 10, b_admin_id = 1\<rparr>]\<rparr>"
    "demo_message\<lparr>msg_text := Some (ascii ''hello'')\<rparr>" demo_config demo_transport 1000]
  by (simp add: is_user_blocked_def empty_store_def demo_message_def)

lemma forward_to_support_relay_target:
  assumes "\<not> is_user_blocked s (msg_chat_id m)"
    and "get_open_ticket s (msg_chat_id m) \<noteq> None \<or> tr_reply_text tr"
    and "\<not> no_content m"
  shows "\<exists>ticket_id topic_id.
           get_open_ticket (o_store (forward_to_support cfg tr now s m)) (msg_chat_id m) =
             Some (ticket_id, topic_id) \<and>
           relay_targets (forward_to_support cfg tr now s m) =
             [(SUPPORT_CHAT_ID cfg,
               if get_topic_mode s = ascii ''per_user'' \<and> truthy_int topic_id then topic_id
               else if get_topic_mode s = ascii ''single_topic'' \<and> truthy_int (SUPPORT_TOPIC_ID cfg)
               then SUPPORT_TOPIC_ID cfg
               else None)]"
proof (cases "get_open_ticket s (msg_chat_id m)")
  case (Some p)
  obtain tid thr where p: "p = (tid, thr)" by (cases p)
  have out: "forward_to_support cfg tr now s m = relay cfg tr s m tid thr False []"
    using assms(1) Some p by (simp add: forward_to_support_existing)
  have "tickets (o_store (relay cfg tr s m tid thr False [])) = tickets s"
    by (simp add: relay_tables)
  then have "get_open_ticket (o_store (relay cfg tr s m tid thr False [])) (msg_chat_id m) =
             get_open_ticket s (msg_chat_id m)"
    by (rule get_open_ticket_tickets_eq)
  then have a: "get_open_ticket (o_store (relay cfg tr s m tid thr False [])) (msg_chat_id m) =
           Some (tid, thr)"
    using Some p by simp
  have b: "relay_targets (relay cfg tr s m tid thr False []) =
      [(SUPPORT_CHAT_ID cfg,
        kw_message_thread_id (send_kwargs cfg (get_topic_mode s) thr (msg_chat_id m)))]"
    using relay_targets_relay [OF assms(3), of cfg tr s tid thr False "[]"]
    by (simp add: relay_targets_def List.map_filter_def)
  show ?thesis
  proof (intro exI conjI)
    show "get_open_ticket (o_store (forward_to_support cfg tr now s m)) (msg_chat_id m) =
          Some (tid, thr)"
      by (simp only: out a)
    show "relay_targets (forward_to_support cfg tr now s m) =
          [(SUPPORT_CHAT_ID cfg,
            if get_topic_mode s = ascii ''per_user'' \<and> truthy_int thr then thr
            else if get_topic_mode s = ascii ''single_topic'' \<and> truthy_int (SUPPORT_TOPIC_ID cfg)
            then SUPPORT_TOPIC_ID cfg
            else None)]"
      by (simp only: out b thread_of_send_kwargs)
  qed
next
  case None
  let ?u = "msg_chat_id m"
  let ?thr = "if get_topic_mode s = ascii ''per_user'' then tr_create_forum_topic tr else None"
  let ?tid = "next_ticket_id (tickets s)"
  let ?ct = "create_ticket cfg tr now s ?u (msg_username m) (msg_first_name m)"
  let ?calls = "snd (snd ?ct) @ [Reply_text (ticket_created_text ?tid)]"
  have reply: "tr_reply_text tr" using assms(2) None by simp
  have out: "forward_to_support cfg tr now s m = relay cfg tr (fst ?ct) m ?tid ?thr True ?calls"
    using assms(1) None reply by (rule forward_to_support_new)
  have "tickets (o_store (relay cfg tr (fst ?ct) m ?tid ?thr True ?calls)) = tickets (fst ?ct)"
    by (simp add: relay_tables)
  then have "get_open_ticket (o_store (relay cfg tr (fst ?ct) m ?tid ?thr True ?calls)) ?u =
             get_open_ticket (fst ?ct) ?u"
    by (rule get_open_ticket_tickets_eq)
  then have a: "get_open_ticket (o_store (relay cfg tr (fst ?ct) m ?tid ?thr True ?calls)) ?u =
           Some (?tid, ?thr)"
    using get_open_ticket_created [OF None, of cfg tr now "msg_username m" "msg_first_name m"]
    by simp
  have "List.map_filter call_target ?calls = []"
    using create_ticket_calls_no_target [of cfg tr now s ?u "msg_username m" "msg_first_name m"]
    by (simp add: List.map_filter_def)
  then have b: "relay_targets (relay cfg tr (fst ?ct) m ?tid ?thr True ?calls) =
      [(SUPPORT_CHAT_ID cfg, kw_message_thread_id (send_kwargs cfg (get_topic_mode s) ?thr ?u))]"
    using relay_targets_relay [OF assms(3), of cfg tr "fst ?ct" ?tid ?thr True ?calls]
    by (simp only: relay_targets_def get_topic_mode_created append_Nil)
  show ?thesis
  proof (intro exI conjI)
    show "get_open_ticket (o_store (forward_to_support cfg tr now s m)) ?u = Some (?tid, ?thr)"
      by (simp only: out a)
    show "relay_targets (forward_to_support cfg tr now s m) =
          [(SUPPORT_CHAT_ID cfg,
            if get_topic_mode s = ascii ''per_user'' \<and> truthy_int ?thr then ?thr
            else if get_topic_mode s = ascii ''single_topic'' \<and> truthy_int (SUPPORT_TOPIC_ID cfg)
            then SUPPORT_TOPIC_ID cfg
            else None)]"
      by (simp only: out b thread_of_send_kwargs)
  qed
qed

text \<open>
  Claim C3. The delivery target computed for an inbound message is the operator chat
  with the thread: the \<open>topic_id\<close> of the ticket when the mode is \<open>per_user\<close> and that
  \<open>topic_id\<close> is set; the configured \<open>SUPPORT_TOPIC_ID\<close> when the mode is \<open>single_topic\<close>
  and one is configured; and no thread (the channel root) in every other case, such as
  \<open>per_user\<close> with a null \<open>topic_id\<close>. "Set" and "configured" are the source's truth
  tests \<open>if topic_id\<close> and \<open>if SUPPORT_TOPIC_ID\<close>: neither \<open>None\<close> nor \<open>0\<close>. This holds of
  \<open>send_kwargs\<close> for every mode and ticket, and of the handler: for a message of a user
  who is not blocked that reaches the relay (the acknowledgement of a new ticket did not
  raise) and has some content, exactly one relay call is made, with that target for the
  user's ticket and the stored mode.
\<close>

theorem forward_to_support_target:
  "kw_chat_id (send_kwargs cfg mode thr u) = SUPPORT_CHAT_ID cfg \<and>
   kw_message_thread_id (send_kwargs cfg mode thr u) =
     (if mode = ascii ''per_user'' \<and> truthy_int thr then thr
      else if mode = ascii ''single_topic'' \<and> truthy_int (SUPPORT_TOPIC_ID cfg)
      then SUPPORT_TOPIC_ID cfg
      else None) \<and>
   (\<not> is_user_blocked s (msg_chat_id m) \<and>
    (get_open_ticket s (msg_chat_id m) \<noteq> None \<or> tr_reply_text tr) \<and>
    \<not> no_content m \<longrightarrow>
    (\<exists>ticket_id topic_id.
       get_open_ticket (o_store (forward_to_support cfg tr now s m)) (msg_chat_id m) =
         Some (ticket_id, topic_id) \<and>
       relay_targets (forward_to_support cfg tr now s m) =
         [(SUPPORT_CHAT_ID cfg,
           if get_topic_mode s = ascii ''per_user'' \<and> truthy_int topic_id then topic_id
           else if get_topic_mode s = ascii ''single_topic'' \<and> truthy_int (SUPPORT_TOPIC_ID cfg)
           then SUPPORT_TOPIC_ID cfg
           else None)]))"
proof (intro conjI impI)
  show "kw_chat_id (send_kwargs cfg mode thr u) = SUPPORT_CHAT_ID cfg"
    by (simp add: send_kwargs_def)
  show "kw_message_thread_id (send_kwargs cfg mode thr u) =
     (if mode = ascii ''per_user'' \<and> truthy_int thr then thr
      else if mode = ascii ''single_topic'' \<and> truthy_int (SUPPORT_TOPIC_ID cfg)
      then SUPPORT_TOPIC_ID cfg
      else None)"
    by (rule thread_of_send_kwargs)
next
  assume h: "\<not> is_user_blocked s (msg_chat_id m) \<and>
    (get_open_ticket s (msg_chat_id m) \<noteq> None \<or> tr_reply_text tr) \<and> \<not> no_content m"
  show "\<exists>ticket_id topic_id.
       get_open_ticket (o_store (forward_to_support cfg tr now s m)) (msg_chat_id m) =
         Some (ticket_id, topic_id) \<and>
       relay_targets (forward_to_support cfg tr now s m) =
         [(SUPPORT_CHAT_ID cfg,
           if get_topic_mode s = ascii ''per_user'' \<and> truthy_int topic_id then topic_id
           else if get_topic_mode s = ascii ''single_topic'' \<and> truthy_int (SUPPORT_TOPIC_ID cfg)
           then SUPPORT_TOPIC_ID cfg
           else None)]"
    using h by (intro forward_to_support_relay_target) simp_all
qed

theorem forward_to_support_target_witness:
  "relay_targets (forward_to_support demo_config demo_transport 1000 empty_store
     (demo_message\<lparr>msg_text := Some (ascii ''hello'')\<rparr>)) = [(- 1001, Some 9)]"
  using forward_to_support_target [where cfg = demo_config and mode = "ascii ''per_user''"
     and thr = "Some 9" and u = 42 and s = empty_store and tr = demo_transport and now = 1000
     and m = "demo_message\<lparr>msg_text := Some (ascii ''hello'')\<rparr>"]
  by (simp add: handler_defs)

section \<open>Creating a ticket when the forum topic cannot be created\<close>

text \<open>
  Claim C7. In \<open>per_user\<close> mode \<open>create_ticket\<close> always asks for a forum topic, and the
  name it passes is the first 128 code points of \<open>topic_name\<close> (the label built from the
  display name): a long name is cut, never refused. When that call fails, the ticket is
  inserted all the same, with status \<open>open\<close> and a null \<open>topic_id\<close>, and nothing
  else is sent.
\<close>

theorem create_ticket_per_user:
  assumes "get_topic_mode s = ascii ''per_user''"
  shows "(\<exists>rest. snd (snd (create_ticket cfg tr now s u un fn)) =
            Create_forum_topic (SUPPORT_CHAT_ID cfg) (take 128 (topic_name u un fn)) # rest) \<and>
         length (take 128 (topic_name u un fn)) \<le> 128 \<and>
         (tr_create_forum_topic tr = None \<longrightarrow>
            create_ticket cfg tr now s u un fn =
              (s\<lparr>tickets := tickets s @
                 [\<lparr>t_id = next_ticket_id (tickets s), t_user_chat_id = u, t_username = un,
                   t_first_name = fn, t_status = ascii ''open'', t_created_at = now,
                   t_updated_at = now, t_topic_id = None\<rparr>]\<rparr>,
               (next_ticket_id (tickets s), None),
               [Create_forum_topic (SUPPORT_CHAT_ID cfg) (take 128 (topic_name u un fn))]))"
  using assms by (simp add: create_ticket_def Let_def)

theorem create_ticket_per_user_witness:
  "create_ticket demo_config \<lparr>tr_create_forum_topic = None, tr_reply_text = True, tr_send = None\<rparr>
     1000 empty_store 42 (Some (replicate 200 97)) None =
   (empty_store\<lparr>tickets :=
      [\<lparr>t_id = 1, t_user_chat_id = 42, t_username = Some (replicate 200 97),
        t_first_name = None, t_status = ascii ''open'', t_created_at = 1000,
        t_updated_at = 1000, t_topic_id = None\<rparr>]\<rparr>,
    (1, None),
    [Create_forum_topic (- 1001) ([128994, 32] @ replicate 126 97)])"
  using create_ticket_per_user [of empty_store demo_config
     "\<lparr>tr_create_forum_topic = None, tr_reply_text = True, tr_send = None\<rparr>" 1000 42
     "Some (replicate 200 97)" None]
  by (simp add: get_topic_mode_def get_setting_def empty_store_def next_ticket_id_def
        topic_name_def display_name_def demo_config_def)

section \<open>Messages without content\<close>

lemma forward_to_support_new_raised:
  assumes "\<not> is_user_blocked s (msg_chat_id m)"
    and "get_open_ticket s (msg_chat_id m) = None"
    and "\<not> tr_reply_text tr"
  shows "forward_to_support cfg tr now s m =
         \<lparr>o_store = fst (create_ticket cfg tr now s (msg_chat_id m) (msg_username m) (msg_first_name m)),
          o_calls = snd (snd (create_ticket cfg tr now s (msg_chat_id m) (msg_username m)
                                (msg_first_name m))) @
                    [Reply_text (ticket_created_text (next_ticket_id (tickets s)))],
          o_raised = True\<rparr>"
proof -
  obtain s1 ids calls where ct:
    "create_ticket cfg tr now s (msg_chat_id m) (msg_username m) (msg_first_name m) = (s1, ids, calls)"
    by (cases "create_ticket cfg tr now s (msg_chat_id m) (msg_username m) (msg_first_name m)")
  have ids: "ids = (next_ticket_id (tickets s),
      if get_topic_mode s = ascii ''per_user'' then tr_create_forum_topic tr else None)"
    using create_ticket_ids [of cfg tr now s "msg_chat_id m" "msg_username m" "msg_first_name m"]
    by (simp add: ct)
  show ?thesis
    using assms by (simp add: forward_to_support_def ct ids)
qed

lemma forward_to_support_no_content_new:
  assumes "no_content m" and "\<not> is_user_blocked s (msg_chat_id m)"
    and "get_open_ticket s (msg_chat_id m) = None"
  shows "o_store (forward_to_support cfg tr now s m) =
           fst (create_ticket cfg tr now s (msg_chat_id m) (msg_username m) (msg_first_name m)) \<and>
         o_calls (forward_to_support cfg tr now s m) =
           snd (snd (create_ticket cfg tr now s (msg_chat_id m) (msg_username m)
                       (msg_first_name m))) @
           [Reply_text (ticket_created_text (next_ticket_id (tickets s)))]"
proof (cases "tr_reply_text tr")
  case True
  show ?thesis
    by (simp add: forward_to_support_new [OF assms(2) assms(3) True] relay_no_content [OF assms(1)])
next
  case False
  show ?thesis
    by (simp add: forward_to_support_new_raised [OF assms(2) assms(3) False])
qed

text \<open>
  Claim C2, as the code has it. The ticket is found or created before the content of the
  message is looked at. So for a message with no text and no photo, video, document,
  voice or audio: nothing is relayed, and no correlation row, block entry or setting
  changes; the store as a whole is unchanged when the sender is blocked or already has
  an open ticket; and for a sender who is not blocked and has no open ticket, one open
  ticket is added.
\<close>

theorem forward_to_support_no_content:
  assumes "no_content m"
  shows "messages_mapping (o_store (forward_to_support cfg tr now s m)) = messages_mapping s \<and>
         blocked_users (o_store (forward_to_support cfg tr now s m)) = blocked_users s \<and>
         bot_settings (o_store (forward_to_support cfg tr now s m)) = bot_settings s \<and>
         relay_targets (forward_to_support cfg tr now s m) = [] \<and>
         (is_user_blocked s (msg_chat_id m) \<or> get_open_ticket s (msg_chat_id m) \<noteq> None \<longrightarrow>
            o_store (forward_to_support cfg tr now s m) = s) \<and>
         (\<not> is_user_blocked s (msg_chat_id m) \<and> get_open_ticket s (msg_chat_id m) = None \<longrightarrow>
            tickets (o_store (forward_to_support cfg tr now s m)) =
              tickets s @
              [\<lparr>t_id = next_ticket_id (tickets s), t_user_chat_id = msg_chat_id m,
                t_username = msg_username m, t_first_name = msg_first_name m,
                t_status = ascii ''open'', t_created_at = now, t_updated_at = now,
                t_topic_id = (if get_topic_mode s = ascii ''per_user''
                              then tr_create_forum_topic tr else None)\<rparr>])"
proof (cases "is_user_blocked s (msg_chat_id m)")
  case True
  then show ?thesis
    by (simp add: forward_to_support_def relay_targets_def List.map_filter_def)
next
  case nb: False
  show ?thesis
  proof (cases "get_open_ticket s (msg_chat_id m)")
    case (Some p)
    obtain tid thr where p: "p = (tid, thr)" by (cases p)
    have "forward_to_support cfg tr now s m = \<lparr>o_store = s, o_calls = [], o_raised = False\<rparr>"
      using nb Some p by (simp add: forward_to_support_existing relay_no_content [OF assms])
    then show ?thesis
      using Some by (simp add: relay_targets_def List.map_filter_def)
  next
    case None
    note new = forward_to_support_no_content_new [OF assms nb None, of cfg tr now]
    have "List.map_filter call_target (o_calls (forward_to_support cfg tr now s m)) = []"
      using create_ticket_calls_no_target [of cfg tr now s "msg_chat_id m" "msg_username m"
          "msg_first_name m"]
      by (simp add: new List.map_filter_def)
    then show ?thesis
      using nb None by (simp add: new create_ticket_store relay_targets_def)
  qed
qed

theorem forward_to_support_no_content_witness:
  "o_store (forward_to_support demo_config demo_transport 1000
      (empty_store\<lparr>tickets :=
         [\<lparr>t_id = 1, t_user_chat_id = 42, t_username = None, t_first_name = None,
           t_status = ascii ''open'', t_created_at = 10, t_updated_at = 10,
           t_topic_id = None\<rparr>]\<rparr>) demo_message) =
   empty_store\<lparr>tickets :=
         [\<lparr>t_id = 1, t_user_chat_id = 42, t_username = None, t_first_name = None,
           t_status = ascii ''open'', t_created_at = 10, t_updated_at = 10,
           t_topic_id = None\<rparr>]\<rparr> \<and>
   messages_mapping (o_store (forward_to_support demo_config demo_transport 1000 empty_store
      demo_message)) = []"
  using forward_to_support_no_content [of demo_message demo_config demo_transport 1000
      "empty_store\<lparr>tickets :=
         [\<lparr>t_id = 1, t_user_chat_id = 42, t_username = None, t_first_name = None,
           t_status = ascii ''open'', t_created_at = 10, t_updated_at = 10,
           t_topic_id = None\<rparr>]\<rparr>"]
    forward_to_support_no_content [of demo_message demo_config demo_transport 1000 empty_store]
  by (simp add: no_content_def demo_message_def get_open_ticket_def empty_store_def
        is_user_blocked_def)

text \<open>
  The claim as stated (no ticket row is created) fails: the first message of a user, when
  it has no content, creates ticket 1.
\<close>

theorem forward_to_support_no_content_creates_ticket:
  "no_content demo_message \<and>
   tickets empty_store = [] \<and>
   tickets (o_store (forward_to_support demo_config demo_transport 1000 empty_store demo_message)) =
     [\<lparr>t_id = 1, t_user_chat_id = 42, t_username = Some (ascii ''alice''),
       t_first_name = Some (ascii ''Alice''), t_status = ascii ''open'', t_created_at = 1000,
       t_updated_at = 1000, t_topic_id = Some 9\<rparr>]"
  by (simp add: handler_defs)

section \<open>The content relayed\<close>

lemma relay_call_captions:
  assumes "relay_call m hdr kw = Some c"
  shows "case c of
           Send_photo f cap k \<Rightarrow> cap = caption_text hdr (msg_caption m)
         | Send_video f cap k \<Rightarrow> cap = caption_text hdr (msg_caption m)
         | Send_document f cap k \<Rightarrow> cap = caption_text hdr (msg_caption m)
         | Send_audio f cap k \<Rightarrow> cap = caption_text hdr (msg_caption m)
         | Send_voice f cap k \<Rightarrow> cap = hdr
         | _ \<Rightarrow> True"
  using assms by (auto simp: relay_call_def split: option.splits if_splits)

text \<open>
  Claim C4, evaluated on the code. A voice message with the caption \<open>hi\<close> is relayed by
  \<open>send_voice\<close> with the header alone as its caption: the user's caption is lost. The
  same message with an audio file instead is relayed with the caption after the header,
  as the photo, video and document branches do.
\<close>

theorem forward_to_support_voice_caption:
  "o_calls (forward_to_support demo_config demo_transport 1000
      (empty_store\<lparr>tickets :=
         [\<lparr>t_id = 1, t_user_chat_id = 42, t_username = None, t_first_name = None,
           t_status = ascii ''open'', t_created_at = 10, t_updated_at = 10,
           t_topic_id = Some 9\<rparr>]\<rparr>)
      (demo_message\<lparr>msg_voice := Some (ascii ''v1''), msg_caption := Some (ascii ''hi'')\<rparr>)) =
     [Send_voice (ascii ''v1'')
        ([128172, 32] @ ascii ''Alice (@alice):'')
        \<lparr>kw_chat_id = - 1001, kw_message_thread_id = Some 9,
          kw_reply_markup =
            ([10060, 32, 1047, 1072, 1073, 1083, 1086, 1082, 1080, 1088, 1086, 1074, 1072, 1090,
              1100, 47, 1056, 1072, 1079, 1073, 1083, 1086, 1082, 1080, 1088, 1086, 1074, 1072,
              1090, 1100], ascii ''block_42'')\<rparr>] \<and>
   o_calls (forward_to_support demo_config demo_transport 1000
      (empty_store\<lparr>tickets :=
         [\<lparr>t_id = 1, t_user_chat_id = 42, t_username = None, t_first_name = None,
           t_status = ascii ''open'', t_created_at = 10, t_updated_at = 10,
           t_topic_id = Some 9\<rparr>]\<rparr>)
      (demo_message\<lparr>msg_audio := Some (ascii ''v1''), msg_caption := Some (ascii ''hi'')\<rparr>)) =
     [Send_audio (ascii ''v1'')
        ([128172, 32] @ ascii ''Alice (@alice):'' @ [10, 10] @ ascii ''hi'')
        \<lparr>kw_chat_id = - 1001, kw_message_thread_id = Some 9,
          kw_reply_markup =
            ([10060, 32, 1047, 1072, 1073, 1083, 1086, 1082, 1080, 1088, 1086, 1074, 1072, 1090,
              1100, 47, 1056, 1072, 1079, 1073, 1083, 1086, 1082, 1080, 1088, 1086, 1074, 1072,
              1090, 1100], ascii ''block_42'')\<rparr>]"
  by (simp add: handler_defs)

section \<open>Ticket timestamps\<close>

lemma times_ok_mono: "times_ok c s \<Longrightarrow> c \<le> c' \<Longrightarrow> times_ok c' s"
  by (force simp: times_ok_def)

lemma times_ok_tickets_eq: "tickets s' = tickets s \<Longrightarrow> times_ok c s' = times_ok c s"
  by (simp add: times_ok_def)

lemma times_ok_create_ticket:
  "times_ok c s \<Longrightarrow> c \<le> now \<Longrightarrow> times_ok now (fst (create_ticket cfg tr now s u un fn))"
  by (force simp: times_ok_def create_ticket_store)

lemma times_ok_update_ticket_status:
  "times_ok c s \<Longrightarrow> c \<le> now \<Longrightarrow> times_ok now (update_ticket_status s T S now)"
  by (force simp: times_ok_def update_ticket_status_def)

lemma forward_to_support_tickets:
  "tickets (o_store (forward_to_support cfg tr now s m)) = tickets s \<or>
   tickets (o_store (forward_to_support cfg tr now s m)) =
     tickets (fst (create_ticket cfg tr now s (msg_chat_id m) (msg_username m) (msg_first_name m)))"
proof (cases "is_user_blocked s (msg_chat_id m)")
  case True
  then show ?thesis by (simp add: forward_to_support_def)
next
  case nb: False
  show ?thesis
  proof (cases "get_open_ticket s (msg_chat_id m)")
    case (Some p)
    obtain tid thr where "p = (tid, thr)" by (cases p)
    then show ?thesis
      using nb Some by (simp add: forward_to_support_existing relay_tables)
  next
    case None
    show ?thesis
    proof (cases "tr_reply_text tr")
      case True
      show ?thesis
        by (simp add: forward_to_support_new [OF nb None True] relay_tables)
    next
      case False
      show ?thesis
        by (simp add: forward_to_support_new_raised [OF nb None False])
    qed
  qed
qed

lemma times_ok_forward_to_support:
  assumes "times_ok c s" and "c \<le> now"
  shows "times_ok now (o_store (forward_to_support cfg tr now s m))"
proof -
  have a: "times_ok now s" using assms by (rule times_ok_mono)
  have b: "times_ok now (fst (create_ticket cfg tr now s (msg_chat_id m) (msg_username m)
                                 (msg_first_name m)))"
    using assms by (rule times_ok_create_ticket)
  from forward_to_support_tickets [of cfg tr now s m] show ?thesis
  proof
    assume "tickets (o_store (forward_to_support cfg tr now s m)) = tickets s"
    then show ?thesis using a by (simp add: times_ok_def)
  next
    assume "tickets (o_store (forward_to_support cfg tr now s m)) =
      tickets (fst (create_ticket cfg tr now s (msg_chat_id m) (msg_username m) (msg_first_name m)))"
    then show ?thesis using b by (simp add: times_ok_def)
  qed
qed

lemma times_ok_apply_event:
  assumes "times_ok c s" and "clock_ok c [e]"
  shows "times_ok (case event_time e of None \<Rightarrow> c | Some now \<Rightarrow> now) (apply_event cfg s e)"
proof (cases e)
  case (Ev_forward_to_support tr now m)
  then show ?thesis using assms by (simp add: times_ok_forward_to_support)
next
  case (Ev_create_ticket tr now u un fn)
  then show ?thesis using assms by (simp add: times_ok_create_ticket)
next
  case (Ev_update_ticket_status now T S)
  then show ?thesis using assms by (simp add: times_ok_update_ticket_status)
next
  case (Ev_toggle_user_block now u a)
  have "tickets (fst (toggle_user_block s u a now)) = tickets s"
    by (simp add: toggle_user_block_def)
  then have "times_ok now (fst (toggle_user_block s u a now)) = times_ok now s"
    by (rule times_ok_tickets_eq)
  moreover have "times_ok now s"
    using assms Ev_toggle_user_block by (simp add: times_ok_mono)
  ultimately show ?thesis using Ev_toggle_user_block by simp
next
  case (Ev_save_mapping u m r t)
  then show ?thesis using assms by (simp add: times_ok_def save_mapping_def)
next
  case (Ev_set_setting k v)
  then show ?thesis using assms by (simp add: times_ok_def set_setting_def)
qed

lemma times_ok_run:
  "times_ok c s \<Longrightarrow> clock_ok c evs \<Longrightarrow> \<exists>c'. times_ok c' (run cfg s evs)"
proof (induction evs arbitrary: s c)
  case Nil
  then show ?case by auto
next
  case (Cons e evs)
  let ?c = "case event_time e of None \<Rightarrow> c | Some now \<Rightarrow> now"
  have one: "clock_ok c [e]"
    using Cons.prems(2) by (simp split: option.splits)
  have rest: "clock_ok ?c evs"
    using Cons.prems(2) by (simp split: option.splits)
  have "times_ok ?c (apply_event cfg s e)"
    using Cons.prems(1) one by (rule times_ok_apply_event)
  then have "\<exists>c'. times_ok c' (run cfg (apply_event cfg s e) evs)"
    using rest by (rule Cons.IH)
  then show ?case by simp
qed

text \<open>
  Claim C9. Starting from the empty database, after any sequence of store operations
  whose clock readings never decrease, every ticket has \<open>created_at \<le> updated_at\<close>:
  \<open>create_ticket\<close> (called directly or by \<open>forward_to_support\<close>) writes the same reading
  to both fields, \<open>update_ticket_status\<close> writes a reading that is not before any earlier
  one to \<open>updated_at\<close>, and no other operation writes a ticket row.
\<close>

theorem created_le_updated:
  assumes "clock_ok c evs"
  shows "\<forall>t \<in> set (tickets (run cfg empty_store evs)). t_created_at t \<le> t_updated_at t"
proof -
  have "times_ok c empty_store"
    by (simp add: times_ok_def empty_store_def)
  then obtain c' where "times_ok c' (run cfg empty_store evs)"
    using assms times_ok_run by blast
  then show ?thesis by (simp add: times_ok_def)
qed

theorem created_le_updated_witness:
  "clock_ok 0
     [Ev_forward_to_support demo_transport 100 (demo_message\<lparr>msg_text := Some (ascii ''hello'')\<rparr>),
      Ev_update_ticket_status 200 1 (ascii ''closed''),
      Ev_forward_to_support demo_transport 300 (demo_message\<lparr>msg_text := Some (ascii ''again'')\<rparr>)] \<and>
   map (\<lambda>t. (t_id t, t_created_at t, t_updated_at t))
     (tickets (run demo_config empty_store
        [Ev_forward_to_support demo_transport 100 (demo_message\<lparr>msg_text := Some (ascii ''hello'')\<rparr>),
         Ev_update_ticket_status 200 1 (ascii ''closed''),
         Ev_forward_to_support demo_transport 300 (demo_message\<lparr>msg_text := Some (ascii ''again'')\<rparr>)])) =
     [(1, 100, 200), (2, 300, 300)]"
  using created_le_updated [of 0
     "[Ev_forward_to_support demo_transport 100 (demo_message\<lparr>msg_text := Some (ascii ''hello'')\<rparr>),
       Ev_update_ticket_status 200 1 (ascii ''closed''),
       Ev_forward_to_support demo_transport 300 (demo_message\<lparr>msg_text := Some (ascii ''again'')\<rparr>)]"
     demo_config]
  by (simp add: handler_defs update_ticket_status_def)

end
